theory Spec2Isabelle
  imports Main "HOL-Library.Word"
begin

section \<open>Kafka fetch handler: operation context, read results and shard fetches\<close>

text \<open>
  A shallow embedding of \<^verbatim>\<open>src/v/kafka/server/handlers/fetch.h\<close>: the fetch
  operation context \<^verbatim>\<open>op_context\<close> with its stop predicate, the aggregate
  \<^verbatim>\<open>read_result\<close> and the per-shard work list \<^verbatim>\<open>shard_fetch\<close>.
\<close>

subsection \<open>Scalar types\<close>

text \<open>
  \<^verbatim>\<open>size_t\<close> is a 64-bit unsigned word, \<^verbatim>\<open>int32_t\<close> a 32-bit word read
  through \<open>sint\<close>, \<^verbatim>\<open>model::offset\<close> a 64-bit word. A time point of
  \<^verbatim>\<open>model::timeout_clock\<close> is its signed tick count; the header only compares
  time points, so the count is an \<open>int\<close>.
\<close>

type_synonym size_t = "64 word"
type_synonym int32_t = "32 word"
type_synonym model_offset = "64 word"
type_synonym partition_id = "32 word"
type_synonym time_point = int
type_synonym milliseconds = int
type_synonym iobuf = "8 word list"

text \<open>
  The enumeration \<^verbatim>\<open>error_code\<close> is declared outside these sources. It is taken as
  its underlying 16-bit value, \<^verbatim>\<open>error_code::none\<close> being the value zero of the Kafka
  protocol.
\<close>

type_synonym error_code = "16 word"

definition error_code_none :: error_code where
  "error_code_none = 0"

datatype isolation_level = read_uncommitted | read_committed

subsection \<open>The decoded request\<close>

text \<open>
  Modelled from the spec: the class \<^verbatim>\<open>fetch_request\<close> of
  \<^verbatim>\<open>kafka/protocol/fetch.h\<close> is not among the sources. The spec gives a request as
  an ordered sequence of topics, each with its ordered partitions (partition index,
  requested start offset, per-partition max bytes), a signed 32-bit minimum of total bytes
  and a maximal wait. \<^verbatim>\<open>debounce_delay()\<close> returns an optional duration, of which
  the header only tests the presence; it is a field here. The iteration
  \<^verbatim>\<open>cbegin() .. cend()\<close> walks the topics in order and, within a topic, its
  partitions in order; \<^verbatim>\<open>empty()\<close> holds when that walk has no element.
\<close>

record fetch_partition =
  partition_index :: partition_id
  max_bytes :: int32_t
  fetch_offset :: model_offset

record fetch_topic =
  name :: string
  fetch_partitions :: "fetch_partition list"

record fetch_request =
  min_bytes :: int32_t
  debounce_delay :: "milliseconds option"
  topics :: "fetch_topic list"

text \<open>The element type of the session's partition container, with the four fields the
  header initialises.\<close>

record fetch_session_partition =
  topic :: string
  partition :: partition_id
  fsp_max_bytes :: int32_t
  fsp_fetch_offset :: model_offset

text \<open>One step of the request iterator hands the visitor a (topic, partition) pair; the
  lambda of \<^verbatim>\<open>for_each_fetch_partition\<close> turns it into a session partition.\<close>

definition to_session_partition :: "fetch_topic \<Rightarrow> fetch_partition \<Rightarrow> fetch_session_partition" where
  "to_session_partition t p =
     \<lparr>topic = name t, partition = partition_index p,
      fsp_max_bytes = max_bytes p, fsp_fetch_offset = fetch_offset p\<rparr>"

text \<open>Modelled from the spec: the request's iterator is not among the sources.
  \<^verbatim>\<open>std::for_each\<close> from \<^verbatim>\<open>cbegin()\<close> to \<^verbatim>\<open>cend()\<close> is the
  inner loop over one topic's partitions and the outer loop over the topics, in the order
  the request gives them, threading the visitor's state.\<close>

fun for_each_partition_of ::
  "(fetch_session_partition \<Rightarrow> 's \<Rightarrow> 's) \<Rightarrow> fetch_topic \<Rightarrow> fetch_partition list \<Rightarrow> 's \<Rightarrow> 's" where
  "for_each_partition_of f t [] s = s"
| "for_each_partition_of f t (p # ps) s =
     for_each_partition_of f t ps (f (to_session_partition t p) s)"

fun for_each_request_partition ::
  "(fetch_session_partition \<Rightarrow> 's \<Rightarrow> 's) \<Rightarrow> fetch_topic list \<Rightarrow> 's \<Rightarrow> 's" where
  "for_each_request_partition f [] s = s"
| "for_each_request_partition f (t # ts) s =
     for_each_request_partition f ts (for_each_partition_of f t (fetch_partitions t) s)"

text \<open>Modelled from the spec: \<^verbatim>\<open>fetch_request::empty()\<close> is not among the
  sources. A request is empty when the walk over its partitions has no element: it has no
  topic, or none of its topics lists a partition.\<close>

fun request_empty_topics :: "fetch_topic list \<Rightarrow> bool" where
  "request_empty_topics [] = True"
| "request_empty_topics (t # ts) =
     (case fetch_partitions t of [] \<Rightarrow> request_empty_topics ts | _ # _ \<Rightarrow> False)"

definition request_empty :: "fetch_request \<Rightarrow> bool" where
  "request_empty r = request_empty_topics (topics r)"

subsection \<open>The fetch session\<close>

text \<open>
  Modelled from the spec: the classes \<^verbatim>\<open>fetch_session\<close> and
  \<^verbatim>\<open>fetch_session_ctx\<close> are not among the sources. A session owns an
  insertion-ordered collection of partitions, kept here as the list in insertion order;
  \<^verbatim>\<open>empty()\<close> holds when it stores none. The context answers
  \<^verbatim>\<open>is_sessionless()\<close> and \<^verbatim>\<open>is_full_fetch()\<close> and hands out its
  session. The header dereferences \<^verbatim>\<open>session()\<close> without a check, and only on
  the path where the context is neither sessionless nor a full fetch; the session is kept
  as a plain field, which that path alone reads.
\<close>

record fetch_session =
  session_partitions :: "fetch_session_partition list"

definition session_empty :: "fetch_session \<Rightarrow> bool" where
  "session_empty s = (session_partitions s = [])"

record fetch_session_ctx =
  is_sessionless :: bool
  is_full_fetch :: bool
  session :: fetch_session

text \<open>Modelled from the spec: the container's insertion-order iterator is not among the
  sources. \<^verbatim>\<open>std::for_each\<close> from \<^verbatim>\<open>cbegin_insertion_order()\<close> to
  \<^verbatim>\<open>cend_insertion_order()\<close> hands the stored partitions to the visitor in
  insertion order.\<close>

fun for_each_insertion_order ::
  "(fetch_session_partition \<Rightarrow> 's \<Rightarrow> 's) \<Rightarrow> fetch_session_partition list \<Rightarrow> 's \<Rightarrow> 's" where
  "for_each_insertion_order f [] s = s"
| "for_each_insertion_order f (p # ps) s = for_each_insertion_order f ps (f p s)"

subsection \<open>The operation context\<close>

text \<open>The fields of \<^verbatim>\<open>op_context\<close> that the inline members read. The request
  context, the service group and the response under construction take no part in them.\<close>

record op_context =
  request :: fetch_request
  bytes_left :: size_t
  deadline :: "time_point option"
  response_size :: size_t
  response_error :: bool
  initial_fetch :: bool
  session_ctx :: fetch_session_ctx

definition is_empty_request :: "op_context \<Rightarrow> bool" where
  "is_empty_request ctx =
     (if is_sessionless (session_ctx ctx) \<or> is_full_fetch (session_ctx ctx)
      then request_empty (request ctx)
      else session_empty (session (session_ctx ctx)) \<and> request_empty (request ctx))"

text \<open>\<^verbatim>\<open>static_cast<int32_t>(response_size) >= request.data.min_bytes\<close>: the cast
  keeps the low 32 bits, and the comparison is signed.\<close>

definition over_min_bytes :: "op_context \<Rightarrow> bool" where
  "over_min_bytes ctx =
     (sint (min_bytes (request ctx)) \<le> sint (ucast (response_size ctx) :: int32_t))"

text \<open>The comparison of a \<^verbatim>\<open>std::optional\<close> with a value: an empty optional is
  below every value.\<close>

definition optional_le :: "'a::ord option \<Rightarrow> 'a \<Rightarrow> bool" where
  "optional_le opt v = (case opt of None \<Rightarrow> True | Some x \<Rightarrow> x \<le> v)"

text \<open>\<^verbatim>\<open>should_stop_fetch\<close> reads the clock; the reading is the second argument.\<close>

definition should_stop_fetch :: "op_context \<Rightarrow> time_point \<Rightarrow> bool" where
  "should_stop_fetch ctx now =
     (debounce_delay (request ctx) = None \<or> over_min_bytes ctx
      \<or> is_empty_request ctx \<or> response_error ctx
      \<or> optional_le (deadline ctx) now)"

definition for_each_fetch_partition ::
  "(fetch_session_partition \<Rightarrow> 's \<Rightarrow> 's) \<Rightarrow> op_context \<Rightarrow> 's \<Rightarrow> 's" where
  "for_each_fetch_partition f ctx s =
     (if is_full_fetch (session_ctx ctx) \<or> is_sessionless (session_ctx ctx)
      then for_each_request_partition f (topics (request ctx)) s
      else for_each_insertion_order f (session_partitions (session (session_ctx ctx))) s)"

subsection \<open>Fetch configuration\<close>

record fetch_config =
  start_offset :: model_offset
  max_offset :: model_offset
  isolation :: isolation_level
  cfg_max_bytes :: size_t
  timeout :: time_point
  strict_max_bytes :: bool

record 'ntp ntp_fetch_config =
  ntp :: 'ntp
  cfg :: fetch_config
  materialized_ntp :: "'ntp option"

definition is_materialized :: "'ntp ntp_fetch_config \<Rightarrow> bool" where
  "is_materialized c = (materialized_ntp c \<noteq> None)"

subsection \<open>Read results\<close>

text \<open>
  The payload is a variant of an owned buffer pointer and a foreign one, either of which
  may be null. The first alternative is the one a default-constructed variant holds, with
  a null pointer.
\<close>

datatype variant_t = Data_t "iobuf option" | Foreign_data_t "iobuf option"

definition variant_default :: variant_t where
  "variant_default = Data_t None"

record 'tx read_result =
  data :: variant_t
  rr_start_offset :: model_offset
  high_watermark :: model_offset
  last_stable_offset :: model_offset
  error :: error_code
  rr_partition :: partition_id
  aborted_transactions :: "'tx list"

text \<open>
  The three constructors. Members without an initialiser are default-constructed; the
  values of a default \<^verbatim>\<open>model::offset\<close> and \<^verbatim>\<open>model::partition_id\<close>,
  declared outside these sources, are the parameters \<open>o0\<close> and \<open>p0\<close>.
\<close>

definition read_result_of_error ::
  "model_offset \<Rightarrow> partition_id \<Rightarrow> error_code \<Rightarrow> 'tx read_result" where
  "read_result_of_error o0 p0 e =
     \<lparr>data = variant_default, rr_start_offset = o0, high_watermark = o0,
      last_stable_offset = o0, error = e, rr_partition = p0, aborted_transactions = []\<rparr>"

definition read_result_of_data ::
  "partition_id \<Rightarrow> variant_t \<Rightarrow> model_offset \<Rightarrow> model_offset \<Rightarrow> model_offset \<Rightarrow> 'tx list
     \<Rightarrow> 'tx read_result" where
  "read_result_of_data p0 d so hw lso ab =
     \<lparr>data = d, rr_start_offset = so, high_watermark = hw,
      last_stable_offset = lso, error = error_code_none, rr_partition = p0,
      aborted_transactions = ab\<rparr>"

definition read_result_of_offsets ::
  "partition_id \<Rightarrow> model_offset \<Rightarrow> model_offset \<Rightarrow> model_offset \<Rightarrow> 'tx read_result" where
  "read_result_of_offsets p0 so hw lso =
     \<lparr>data = variant_default, rr_start_offset = so, high_watermark = hw,
      last_stable_offset = lso, error = error_code_none, rr_partition = p0,
      aborted_transactions = []\<rparr>"

text \<open>\<^verbatim>\<open>has_data\<close> visits the variant. On the foreign alternative it calls
  \<^verbatim>\<open>empty()\<close> through the pointer; with a null pointer there is no result.\<close>

fun has_data_of :: "variant_t \<Rightarrow> bool option" where
  "has_data_of (Data_t d) = Some (d \<noteq> None)"
| "has_data_of (Foreign_data_t None) = None"
| "has_data_of (Foreign_data_t (Some b)) = Some (b \<noteq> [])"

definition has_data :: "'tx read_result \<Rightarrow> bool option" where
  "has_data r = has_data_of (data r)"

fun get_data_of :: "variant_t \<Rightarrow> iobuf option" where
  "get_data_of (Data_t d) = d"
| "get_data_of (Foreign_data_t d) = d"

definition get_data :: "'tx read_result \<Rightarrow> iobuf option" where
  "get_data r = get_data_of (data r)"

subsection \<open>Fetches of one shard\<close>

record ('ntp, 'it) shard_fetch =
  requests :: "'ntp ntp_fetch_config list"
  responses :: "'it list"

definition shard_fetch_init :: "('ntp, 'it) shard_fetch" where
  "shard_fetch_init = \<lparr>requests = [], responses = []\<rparr>"

definition push_back ::
  "'ntp ntp_fetch_config \<Rightarrow> 'it \<Rightarrow> ('ntp, 'it) shard_fetch \<Rightarrow> ('ntp, 'it) shard_fetch" where
  "push_back config it sf =
     sf\<lparr>requests := requests sf @ [config], responses := responses sf @ [it]\<rparr>"

datatype failure = Assertion_failed nat nat

text \<open>\<^verbatim>\<open>empty\<close> asserts that both vectors have the same size; a failed
  \<^verbatim>\<open>vassert\<close> ends the process and is the left injection, carrying the two counts
  of the message.\<close>

definition shard_fetch_empty :: "('ntp, 'it) shard_fetch \<Rightarrow> failure + bool" where
  "shard_fetch_empty sf =
     (if length (requests sf) = length (responses sf)
      then Inr (requests sf = [])
      else Inl (Assertion_failed (length (requests sf)) (length (responses sf))))"

text \<open>The shard fetches that a sequence of \<^verbatim>\<open>push_back\<close> calls builds from the
  default-constructed one.\<close>

inductive built :: "('ntp, 'it) shard_fetch \<Rightarrow> bool" where
  built_init: "built shard_fetch_init"
| built_push: "built sf \<Longrightarrow> built (push_back config it sf)"

subsection \<open>Sample states\<close>

text \<open>Concrete requests and contexts at which the theorems below are instantiated. In
  \<open>sample_ctx\<close> a sessionless request for one partition waits up to 500 ms for at least
  one byte, nothing has been read yet and the deadline is the time point 1000.\<close>

definition sample_partition :: fetch_partition where
  "sample_partition = \<lparr>partition_index = 0, max_bytes = 1048576, fetch_offset = 42\<rparr>"

definition sample_request :: fetch_request where
  "sample_request =
     \<lparr>min_bytes = 1, debounce_delay = Some 500,
      topics = [\<lparr>name = ''orders'', fetch_partitions = [sample_partition]\<rparr>]\<rparr>"

definition sample_session_ctx :: fetch_session_ctx where
  "sample_session_ctx =
     \<lparr>is_sessionless = True, is_full_fetch = False,
      session = \<lparr>session_partitions = []\<rparr>\<rparr>"

definition sample_ctx :: op_context where
  "sample_ctx =
     \<lparr>request = sample_request, bytes_left = 1048576, deadline = Some 1000,
      response_size = 0, response_error = False, initial_fetch = True,
      session_ctx = sample_session_ctx\<rparr>"

definition incremental_ctx :: op_context where
  "incremental_ctx =
     sample_ctx\<lparr>session_ctx :=
       \<lparr>is_sessionless = False, is_full_fetch = False,
        session = \<lparr>session_partitions =
          [\<lparr>topic = ''payments'', partition = 3, fsp_max_bytes = 4096, fsp_fetch_offset = 7\<rparr>,
           \<lparr>topic = ''orders'', partition = 1, fsp_max_bytes = 512, fsp_fetch_offset = 0\<rparr>]\<rparr>\<rparr>\<rparr>"

definition two_topic_ctx :: op_context where
  "two_topic_ctx =
     sample_ctx\<lparr>request := sample_request\<lparr>topics :=
       [\<lparr>name = ''orders'', fetch_partitions =
           [sample_partition, \<lparr>partition_index = 1, max_bytes = 512, fetch_offset = 9\<rparr>]\<rparr>,
        \<lparr>name = ''idle'', fetch_partitions = []\<rparr>,
        \<lparr>name = ''payments'', fetch_partitions =
           [\<lparr>partition_index = 3, max_bytes = 4096, fetch_offset = 7\<rparr>]\<rparr>]\<rparr>\<rparr>"

definition empty_incremental_ctx :: op_context where
  "empty_incremental_ctx =
     sample_ctx\<lparr>request := sample_request\<lparr>topics := [\<lparr>name = ''idle'', fetch_partitions = []\<rparr>]\<rparr>,
                session_ctx := \<lparr>is_sessionless = False, is_full_fetch = False,
                                session = \<lparr>session_partitions = []\<rparr>\<rparr>\<rparr>"

definition sample_config :: "string ntp_fetch_config" where
  "sample_config =
     \<lparr>ntp = ''kafka/orders/0'',
      cfg = \<lparr>start_offset = 42, max_offset = 100, isolation = read_committed,
             cfg_max_bytes = 1048576, timeout = 1000, strict_max_bytes = False\<rparr>,
      materialized_ntp = None\<rparr>"

lemmas sample_defs =
  sample_partition_def sample_request_def sample_session_ctx_def sample_ctx_def

section \<open>Auxiliary facts\<close>

subsection \<open>The truncating cast\<close>

lemma uint_ucast_32: "uint (ucast (w :: 64 word) :: 32 word) = uint w mod 2 ^ 32"
  by (simp add: unsigned_ucast_eq take_bit_eq_mod)

lemma sint_32_of_uint:
  "sint (x :: 32 word) = (if uint x < 2 ^ 31 then uint x else uint x - 2 ^ 32)"
proof -
  have b: "0 \<le> uint x" "uint x < 2 ^ 32"
    using uint_bounded [of x] by simp_all
  have s: "sint x = (uint x + 2 ^ 31) mod 2 ^ 32 - 2 ^ 31"
    by (simp add: sint_uint signed_take_bit_eq_take_bit_shift take_bit_eq_mod)
  show ?thesis
  proof (cases "uint x < 2 ^ 31")
    case True
    with b have "(uint x + 2 ^ 31) mod 2 ^ 32 = uint x + 2 ^ 31"
      by (intro mod_pos_pos_trivial) simp_all
    with True s show ?thesis by simp
  next
    case False
    have "uint x + 2 ^ 31 = (uint x - 2 ^ 31) + 2 ^ 32"
      by simp
    then have "(uint x + 2 ^ 31) mod 2 ^ 32 = (uint x - 2 ^ 31) mod 2 ^ 32"
      by (simp only: mod_add_self2)
    also from False b have "\<dots> = uint x - 2 ^ 31"
      by (intro mod_pos_pos_trivial) simp_all
    finally show ?thesis using False s by simp
  qed
qed

lemma sint_ucast_trunc:
  "sint (ucast (w :: 64 word) :: 32 word) =
     (let m = int (unat w mod 2 ^ 32) in if m < 2 ^ 31 then m else m - 2 ^ 32)"
  by (simp add: sint_32_of_uint uint_ucast_32 Let_def zmod_int)

subsection \<open>The walks as folds\<close>

lemma to_session_partition_abs:
  "to_session_partition t =
     (\<lambda>p. \<lparr>topic = name t, partition = partition_index p,
           fsp_max_bytes = max_bytes p, fsp_fetch_offset = fetch_offset p\<rparr>)"
  by (intro ext) (simp add: to_session_partition_def)

lemma for_each_partition_of_fold:
  "for_each_partition_of f t ps s = fold f (map (to_session_partition t) ps) s"
  by (induction ps arbitrary: s) simp_all

lemma for_each_request_partition_fold:
  "for_each_request_partition f ts s =
     fold f (concat (map (\<lambda>t. map (to_session_partition t) (fetch_partitions t)) ts)) s"
  by (induction ts arbitrary: s) (simp_all add: for_each_partition_of_fold)

lemma for_each_insertion_order_fold:
  "for_each_insertion_order f ps s = fold f ps s"
  by (induction ps arbitrary: s) simp_all

lemma request_empty_topics_concat:
  "request_empty_topics ts = (concat (map fetch_partitions ts) = [])"
  by (induction ts) (auto split: list.splits)

lemma push_back_lengths:
  "length (requests (push_back c i sf)) = Suc (length (requests sf))"
  "length (responses (push_back c i sf)) = Suc (length (responses sf))"
  by (simp_all add: push_back_def)

section \<open>The stop predicate\<close>

text \<open>
  Claim C1. For every operation state and clock reading, \<open>should_stop_fetch\<close> is true
  exactly when one of these holds: the request carries no debounce delay,
  \<open>over_min_bytes\<close> holds, the request is empty, \<open>response_error\<close> is set, or the
  deadline is at or before the current time. The deadline is a \<^verbatim>\<open>std::optional\<close>
  compared with \<^verbatim>\<open><=\<close>; an unset deadline is at or before every time point.
\<close>

theorem should_stop_fetch_iff:
  "should_stop_fetch ctx now \<longleftrightarrow>
     debounce_delay (request ctx) = None
     \<or> over_min_bytes ctx
     \<or> is_empty_request ctx
     \<or> response_error ctx
     \<or> (case deadline ctx of None \<Rightarrow> True | Some d \<Rightarrow> d \<le> now)"
  by (simp add: should_stop_fetch_def optional_le_def)

text \<open>At \<open>sample_ctx\<close> only the deadline can hold: the predicate is false one tick
  before the deadline and true at it.\<close>

theorem should_stop_fetch_iff_witness:
  "\<not> should_stop_fetch sample_ctx 999 \<and> should_stop_fetch sample_ctx 1000"
  using should_stop_fetch_iff [of sample_ctx 999] should_stop_fetch_iff [of sample_ctx 1000]
  by (simp add: over_min_bytes_def is_empty_request_def request_empty_def sample_defs)

text \<open>
  Claim C2, as stated: with \<open>min_bytes \<le> 0\<close> the predicate is true for every value of
  \<open>response_size\<close>. It fails at \<open>min_bytes = 0\<close> and \<open>response_size = 2^31\<close>: the cast
  to \<^verbatim>\<open>int32_t\<close> yields \<open>- 2^31\<close>, which is below zero, and with a wait requested,
  a partition listed, no error and the deadline ahead the predicate is false.
\<close>

theorem min_bytes_nonpositive_counterexample:
  "sint (min_bytes (request (sample_ctx\<lparr>request := sample_request\<lparr>min_bytes := 0\<rparr>,
                                       response_size := 2147483648\<rparr>))) \<le> 0
   \<and> \<not> should_stop_fetch (sample_ctx\<lparr>request := sample_request\<lparr>min_bytes := 0\<rparr>,
                                       response_size := 2147483648\<rparr>) 0"
  by (simp add: should_stop_fetch_def over_min_bytes_def is_empty_request_def request_empty_def
      optional_le_def sample_defs)

text \<open>
  Claim C2, amended. For every request whose \<open>min_bytes\<close> is at most zero and every
  \<open>response_size\<close> whose value modulo \<open>2^32\<close> is below \<open>2^31\<close> (every size below
  2 GiB among them), \<open>over_min_bytes\<close> holds and \<open>should_stop_fetch\<close> is true, at every
  clock reading and whatever the other fields are.
\<close>

theorem min_bytes_nonpositive_stops:
  assumes "sint (min_bytes (request ctx)) \<le> 0"
    and "unat (response_size ctx) mod 2 ^ 32 < 2 ^ 31"
  shows "over_min_bytes ctx \<and> should_stop_fetch ctx now"
proof -
  from assms(2) have "int (unat (response_size ctx) mod 2 ^ 32) < 2 ^ 31"
    by (metis of_nat_less_iff of_nat_numeral of_nat_power)
  then have "0 \<le> sint (ucast (response_size ctx) :: int32_t)"
    by (simp add: sint_ucast_trunc Let_def)
  with assms(1) have "over_min_bytes ctx"
    by (simp add: over_min_bytes_def)
  then show ?thesis
    by (simp add: should_stop_fetch_def)
qed

theorem min_bytes_nonpositive_stops_witness:
  "sint (min_bytes (request (sample_ctx\<lparr>request := sample_request\<lparr>min_bytes := - 1\<rparr>,
                                       response_size := 4294967296 + 7\<rparr>))) \<le> 0
   \<and> unat (response_size (sample_ctx\<lparr>request := sample_request\<lparr>min_bytes := - 1\<rparr>,
                                       response_size := 4294967296 + 7\<rparr>)) mod 2 ^ 32 < 2 ^ 31
   \<and> should_stop_fetch (sample_ctx\<lparr>request := sample_request\<lparr>min_bytes := - 1\<rparr>,
                                       response_size := 4294967296 + 7\<rparr>) 0"
  using min_bytes_nonpositive_stops
    [of "sample_ctx\<lparr>request := sample_request\<lparr>min_bytes := - 1\<rparr>,
                     response_size := 4294967296 + 7\<rparr>" 0]
  by (simp add: sample_defs)

text \<open>
  Claim C3. Whenever \<open>response_error\<close> is set, \<open>should_stop_fetch\<close> is true, whatever
  \<open>response_size\<close>, \<open>min_bytes\<close> and the deadline are.
\<close>

theorem response_error_stops:
  "response_error ctx \<Longrightarrow> should_stop_fetch ctx now"
  by (simp add: should_stop_fetch_def)

text \<open>An error stops the fetch while the size is below the minimum and the deadline is
  still ahead.\<close>

theorem response_error_stops_witness:
  "response_error (sample_ctx\<lparr>response_error := True\<rparr>)
   \<and> \<not> over_min_bytes (sample_ctx\<lparr>response_error := True\<rparr>)
   \<and> \<not> optional_le (deadline (sample_ctx\<lparr>response_error := True\<rparr>)) 0
   \<and> should_stop_fetch (sample_ctx\<lparr>response_error := True\<rparr>) 0"
  using response_error_stops [of "sample_ctx\<lparr>response_error := True\<rparr>" 0]
  by (simp add: over_min_bytes_def optional_le_def sample_defs)

text \<open>
  Claim C4. For every \<open>response_size\<close> and every signed 32-bit \<open>min_bytes\<close>,
  \<open>over_min_bytes\<close> is true exactly when \<open>min_bytes\<close> is at most \<open>response_size\<close>
  modulo \<open>2^32\<close> read as a signed 32-bit integer; and with \<open>min_bytes\<close> negative or zero
  the comparison holds already at \<open>response_size = 0\<close>.
\<close>

theorem over_min_bytes_truncates:
  "(over_min_bytes ctx \<longleftrightarrow>
      sint (min_bytes (request ctx))
        \<le> (let m = int (unat (response_size ctx) mod 2 ^ 32)
            in if m < 2 ^ 31 then m else m - 2 ^ 32))
   \<and> (sint (min_bytes (request ctx)) \<le> 0 \<and> response_size ctx = 0 \<longrightarrow> over_min_bytes ctx)"
  by (simp add: over_min_bytes_def sint_ucast_trunc Let_def)

text \<open>With \<open>min_bytes = - 5\<close> the comparison holds at size zero; with
  \<open>min_bytes = 1\<close> a size of \<open>2^32\<close> truncates to zero and is not over the minimum,
  while \<open>2^32 + 1\<close> truncates to one and is.\<close>

theorem over_min_bytes_truncates_witness:
  "sint (min_bytes (request (sample_ctx\<lparr>request := sample_request\<lparr>min_bytes := - 5\<rparr>\<rparr>))) \<le> 0
   \<and> response_size (sample_ctx\<lparr>request := sample_request\<lparr>min_bytes := - 5\<rparr>\<rparr>) = 0
   \<and> over_min_bytes (sample_ctx\<lparr>request := sample_request\<lparr>min_bytes := - 5\<rparr>\<rparr>)
   \<and> \<not> over_min_bytes (sample_ctx\<lparr>response_size := 4294967296\<rparr>)
   \<and> over_min_bytes (sample_ctx\<lparr>response_size := 4294967297\<rparr>)"
  using over_min_bytes_truncates [of "sample_ctx\<lparr>request := sample_request\<lparr>min_bytes := - 5\<rparr>\<rparr>"]
    over_min_bytes_truncates [of "sample_ctx\<lparr>response_size := 4294967296\<rparr>"]
    over_min_bytes_truncates [of "sample_ctx\<lparr>response_size := 4294967297\<rparr>"]
  by (simp add: sample_defs)

text \<open>
  Claim C7. On a state where \<open>should_stop_fetch\<close> is true, evaluating it again on the
  same state at an equal or later clock reading is true again.
\<close>

theorem should_stop_fetch_stable:
  assumes "should_stop_fetch ctx now" and "now \<le> later"
  shows "should_stop_fetch ctx later"
proof (cases "deadline ctx")
  case None
  then show ?thesis by (simp add: should_stop_fetch_def optional_le_def)
next
  case (Some d)
  with assms show ?thesis
    by (auto simp: should_stop_fetch_def optional_le_def)
qed

theorem should_stop_fetch_stable_witness:
  "should_stop_fetch sample_ctx 1000 \<and> (1000 :: time_point) \<le> 1500
   \<and> should_stop_fetch sample_ctx 1500"
proof -
  have a: "should_stop_fetch sample_ctx 1000"
    by (simp add: should_stop_fetch_def optional_le_def sample_defs)
  have b: "(1000 :: time_point) \<le> 1500" by simp
  from should_stop_fetch_stable [OF a b] a b show ?thesis by simp
qed

text \<open>
  Claim C9. If the deadline is unset, the deadline disjunct of \<open>should_stop_fetch\<close> is
  satisfied, so the predicate is true whatever the other fields are.
\<close>

theorem unset_deadline_stops:
  "deadline ctx = None \<Longrightarrow> optional_le (deadline ctx) now \<and> should_stop_fetch ctx now"
  by (simp add: should_stop_fetch_def optional_le_def)

text \<open>With the deadline unset, every other disjunct is false at \<open>sample_ctx\<close> and the
  predicate is true all the same.\<close>

theorem unset_deadline_stops_witness:
  "deadline (sample_ctx\<lparr>deadline := None\<rparr>) = None
   \<and> debounce_delay (request (sample_ctx\<lparr>deadline := None\<rparr>)) \<noteq> None
   \<and> \<not> over_min_bytes (sample_ctx\<lparr>deadline := None\<rparr>)
   \<and> \<not> is_empty_request (sample_ctx\<lparr>deadline := None\<rparr>)
   \<and> \<not> response_error (sample_ctx\<lparr>deadline := None\<rparr>)
   \<and> should_stop_fetch (sample_ctx\<lparr>deadline := None\<rparr>) 0"
  using unset_deadline_stops [of "sample_ctx\<lparr>deadline := None\<rparr>" 0]
  by (simp add: over_min_bytes_def is_empty_request_def request_empty_def sample_defs)

section \<open>The partitions of a fetch\<close>

text \<open>
  Claim C5. For a sessionless or full-fetch context, \<open>for_each_fetch_partition\<close> calls
  the visitor on exactly the partitions listed in the request, in request order, each
  carrying its topic name, partition index, max bytes and fetch offset; for an incremental
  context it calls the visitor on exactly the session's stored partitions, in insertion
  order. The visits are the \<open>fold\<close> of the visitor over that list.
\<close>

theorem for_each_fetch_partition_visits:
  "(is_sessionless (session_ctx ctx) \<or> is_full_fetch (session_ctx ctx) \<longrightarrow>
      for_each_fetch_partition f ctx s =
        fold f (concat (map (\<lambda>t. map (\<lambda>p. \<lparr>topic = name t, partition = partition_index p,
                                              fsp_max_bytes = max_bytes p,
                                              fsp_fetch_offset = fetch_offset p\<rparr>)
                                      (fetch_partitions t))
                            (topics (request ctx)))) s)
   \<and> (\<not> is_sessionless (session_ctx ctx) \<and> \<not> is_full_fetch (session_ctx ctx) \<longrightarrow>
      for_each_fetch_partition f ctx s =
        fold f (session_partitions (session (session_ctx ctx))) s)"
  by (auto simp: for_each_fetch_partition_def for_each_request_partition_fold
      for_each_insertion_order_fold to_session_partition_abs)

text \<open>A visitor that appends what it is given collects the three partitions of a
  sessionless request in request order, and the two stored partitions of a session.\<close>

theorem for_each_fetch_partition_visits_witness:
  "(is_sessionless (session_ctx two_topic_ctx) \<or> is_full_fetch (session_ctx two_topic_ctx))
   \<and> for_each_fetch_partition (\<lambda>p acc. acc @ [p]) two_topic_ctx [] =
       [\<lparr>topic = ''orders'', partition = 0, fsp_max_bytes = 1048576, fsp_fetch_offset = 42\<rparr>,
        \<lparr>topic = ''orders'', partition = 1, fsp_max_bytes = 512, fsp_fetch_offset = 9\<rparr>,
        \<lparr>topic = ''payments'', partition = 3, fsp_max_bytes = 4096, fsp_fetch_offset = 7\<rparr>]
   \<and> \<not> is_sessionless (session_ctx incremental_ctx)
   \<and> \<not> is_full_fetch (session_ctx incremental_ctx)
   \<and> for_each_fetch_partition (\<lambda>p acc. acc @ [p]) incremental_ctx [] =
       [\<lparr>topic = ''payments'', partition = 3, fsp_max_bytes = 4096, fsp_fetch_offset = 7\<rparr>,
        \<lparr>topic = ''orders'', partition = 1, fsp_max_bytes = 512, fsp_fetch_offset = 0\<rparr>]"
  using for_each_fetch_partition_visits [of two_topic_ctx "\<lambda>p acc. acc @ [p]" "[]"]
    for_each_fetch_partition_visits [of incremental_ctx "\<lambda>p acc. acc @ [p]" "[]"]
  by (simp add: two_topic_ctx_def incremental_ctx_def sample_defs)

text \<open>
  Claim C6. \<open>is_empty_request\<close> is true, for a sessionless or full-fetch context, exactly
  when the request lists no partitions, and for a session-backed context exactly when both
  the stored session set and the request are empty. Whenever it is true,
  \<open>should_stop_fetch\<close> is true and \<open>for_each_fetch_partition\<close> visits nothing.
\<close>

theorem empty_request_stops:
  "(is_sessionless (session_ctx ctx) \<or> is_full_fetch (session_ctx ctx) \<longrightarrow>
      is_empty_request ctx = (concat (map fetch_partitions (topics (request ctx))) = []))
   \<and> (\<not> is_sessionless (session_ctx ctx) \<and> \<not> is_full_fetch (session_ctx ctx) \<longrightarrow>
      is_empty_request ctx =
        (session_partitions (session (session_ctx ctx)) = []
         \<and> concat (map fetch_partitions (topics (request ctx))) = []))
   \<and> (is_empty_request ctx \<longrightarrow>
      should_stop_fetch ctx now \<and> for_each_fetch_partition f ctx s = s)"
proof -
  have e: "request_empty (request ctx) = (concat (map fetch_partitions (topics (request ctx))) = [])"
    by (simp add: request_empty_def request_empty_topics_concat)
  have v: "for_each_fetch_partition f ctx s = s" if "is_empty_request ctx"
  proof (cases "is_sessionless (session_ctx ctx) \<or> is_full_fetch (session_ctx ctx)")
    case True
    with that e have "concat (map fetch_partitions (topics (request ctx))) = []"
      by (simp add: is_empty_request_def)
    then have "concat (map (\<lambda>t. map (to_session_partition t) (fetch_partitions t))
                 (topics (request ctx))) = []"
      by simp
    with True show ?thesis
      by (auto simp: for_each_fetch_partition_def for_each_request_partition_fold
          simp del: concat_eq_Nil_conv)
  next
    case False
    with that have "session_partitions (session (session_ctx ctx)) = []"
      by (simp add: is_empty_request_def session_empty_def)
    with False show ?thesis
      by (auto simp: for_each_fetch_partition_def)
  qed
  show ?thesis
    using e v by (auto simp: is_empty_request_def session_empty_def should_stop_fetch_def)
qed

text \<open>An incremental context with an empty session and an empty request stops and
  visits nothing although a wait was requested and the deadline is ahead; the sessionless
  \<open>sample_ctx\<close> lists a partition and is not empty.\<close>

theorem empty_request_stops_witness:
  "\<not> is_sessionless (session_ctx empty_incremental_ctx)
   \<and> \<not> is_full_fetch (session_ctx empty_incremental_ctx)
   \<and> is_empty_request empty_incremental_ctx
   \<and> should_stop_fetch empty_incremental_ctx 0
   \<and> for_each_fetch_partition (\<lambda>p acc. acc @ [p]) empty_incremental_ctx [] = []
   \<and> (is_sessionless (session_ctx sample_ctx) \<or> is_full_fetch (session_ctx sample_ctx))
   \<and> \<not> is_empty_request sample_ctx"
  using empty_request_stops [of empty_incremental_ctx 0 "\<lambda>p acc. acc @ [p]" "[]"]
    empty_request_stops [of sample_ctx 0 "\<lambda>p acc. acc @ [p]" "[]"]
  by (simp add: empty_incremental_ctx_def sample_defs)

section \<open>Read results\<close>

text \<open>
  Claim C8. A \<open>read_result\<close> constructed from an error code has that error set and
  \<open>has_data\<close> returns false; a \<open>read_result\<close> constructed with payload and offsets, or
  with offsets alone, has its error field equal to \<open>none\<close>.
\<close>

theorem read_result_error_or_data:
  "error (read_result_of_error o0 p0 e) = e
   \<and> has_data (read_result_of_error o0 p0 e) = Some False
   \<and> error (read_result_of_data p0 d so hw lso ab) = error_code_none
   \<and> error (read_result_of_offsets p0 so hw lso) = error_code_none
   \<and> has_data (read_result_of_offsets p0 so hw lso) = Some False"
  by (simp add: read_result_of_error_def read_result_of_data_def read_result_of_offsets_def
      has_data_def variant_default_def)

section \<open>Shard fetches\<close>

text \<open>
  Claim C10. For every \<open>shard_fetch\<close> built from the empty one by a sequence of
  \<open>push_back\<close> calls, the requests and the responses have equal length, so the assertion
  inside \<open>empty\<close> holds and \<open>empty\<close> returns whether there are no requests.
\<close>

theorem built_equal_lengths:
  "built sf \<Longrightarrow>
     length (requests sf) = length (responses sf)
     \<and> shard_fetch_empty sf = Inr (requests sf = [])"
proof (induction rule: built.induct)
  case built_init
  show ?case by (simp add: shard_fetch_init_def shard_fetch_empty_def)
next
  case (built_push sf config it)
  then have "length (requests (push_back config it sf)) = length (responses (push_back config it sf))"
    by (simp add: push_back_lengths)
  then show ?case by (simp add: shard_fetch_empty_def)
qed

theorem built_equal_lengths_witness:
  "built (push_back sample_config (1 :: nat) (push_back sample_config 0 shard_fetch_init))
   \<and> length (requests (push_back sample_config (1 :: nat) (push_back sample_config 0 shard_fetch_init))) = 2
   \<and> length (responses (push_back sample_config (1 :: nat) (push_back sample_config 0 shard_fetch_init))) = 2
   \<and> shard_fetch_empty (push_back sample_config (1 :: nat) (push_back sample_config 0 shard_fetch_init))
       = Inr False"
proof -
  have b: "built (push_back sample_config (1 :: nat) (push_back sample_config 0 shard_fetch_init))"
    by (intro built.intros)
  from built_equal_lengths [OF b] b show ?thesis
    by (simp add: push_back_def shard_fetch_init_def)
qed

end
